theory Spec2Isabelle
  imports Complex_Main "HOL-Library.Word"
begin

section \<open>Go values shared by the packages\<close>

text \<open>
  A Go call either returns or panics. A function whose source has a \<open>panic\<close> statement
  returns an \<open>outcome\<close>; one that has none returns its value directly.
\<close>

datatype 'a outcome = Panic string | Return 'a

text \<open>A Go \<open>error\<close> made by \<open>fmt.Errorf\<close>: its message.\<close>

datatype error = Error string

type_synonym bytes = "8 word list"

subsection \<open>Package time\<close>

text \<open>
  A \<open>time.Time\<close> is read as its number of nanoseconds since the zero time
  \<open>time.Time{}\<close>; a \<open>time.Duration\<close> is a signed 64-bit count of nanoseconds.
  \<open>Time.Sub\<close> saturates at the ends of the Duration range, and \<open>time.Since t\<close> is
  \<open>time.Now().Sub(t)\<close>; the reading of the clock is the argument \<open>now\<close>.
\<close>

type_synonym Time = int
type_synonym Duration = int

definition maxDuration :: Duration where
  "maxDuration = 2 ^ 63 - 1"

definition minDuration :: Duration where
  "minDuration = - (2 ^ 63)"

definition Time_zero :: Time where
  "Time_zero = 0"

definition Time_Sub :: "Time \<Rightarrow> Time \<Rightarrow> Duration" where
  "Time_Sub t u =
     (let d = t - u in
      if maxDuration < d then maxDuration
      else if d < minDuration then minDuration
      else d)"

definition time_Since :: "Time \<Rightarrow> Time \<Rightarrow> Duration" where
  "time_Since now t = Time_Sub now t"

section \<open>Package types and common.AssetPair\<close>

text \<open>
  The types \<open>types.Symbol\<close>, \<open>types.RawPrice\<close>, \<open>types.Price\<close>,
  \<open>types.Params\<close>, \<open>types.VotingPeriod\<close> and \<open>common.AssetPair\<close> are declared in
  other packages; their fields are read off their uses in the price provider and in the
  feeder test. Prices are \<open>float64\<close> values that the
  code only stores, copies and overwrites with the literals \<open>-1\<close> and \<open>0\<close>; they are
  modelled as real numbers.
\<close>

datatype AssetPair = AssetPair (Token0: string) (Token1: string)

type_synonym Symbol = string

record RawPrice =
  RawPrice_Price :: real
  UpdateTime :: Time

record Price =
  Pair' :: AssetPair
  Price :: real
  SourceName :: string
  Valid :: bool

record Params =
  Pairs :: "AssetPair list"
  VotePeriodBlocks :: nat

record VotingPeriod =
  Height :: nat

text \<open>The zero value of a \<open>RawPrice\<close>, which a Go map read yields for a missing key.\<close>

definition RawPrice_zero :: RawPrice where
  "RawPrice_zero = \<lparr>RawPrice_Price = 0, UpdateTime = Time_zero\<rparr>"

section \<open>Package priceprovider\<close>

text \<open>
  A Go map that the code ranges over is an association list in iteration order (a Go map
  holds each key once, so its keys are distinct); a Go map that is only indexed is a HOL
  map. A channel of \<open>struct{}\<close> that is only ever closed is the flag "closed".
\<close>

datatype PriceUpdate = BitfinexPriceUpdate | BinancePriceUpdate

text \<open>
  A \<open>types.Source\<close>: the tick source that \<open>sources.NewTickSource\<close> builds from a symbol
  list and a fetch function, with the number of times its \<open>Close\<close> has been called.
\<close>

record Source =
  symbols :: "Symbol list"
  fetch :: PriceUpdate
  Close_calls :: nat

definition NewTickSource :: "Symbol list \<Rightarrow> PriceUpdate \<Rightarrow> Source" where
  "NewTickSource s f = \<lparr>symbols = s, fetch = f, Close_calls = 0\<rparr>"

record PriceProvider =
  stopSignal :: bool
  done_chan :: bool
  source :: Source
  sourceName :: string
  pairToSymbolMapping :: "(AssetPair \<times> Symbol) list"
  lastPrices :: "Symbol \<rightharpoonup> RawPrice"

text \<open>\<open>symbolsFromPairToSymbolMapping\<close>: one symbol appended per entry of the map.\<close>

fun symbolsFromPairToSymbolMapping :: "(AssetPair \<times> Symbol) list \<Rightarrow> Symbol list" where
  "symbolsFromPairToSymbolMapping [] = []"
| "symbolsFromPairToSymbolMapping ((k, v) # m) = v # symbolsFromPairToSymbolMapping m"

text \<open>\<open>newPriceProvider\<close>: both channels open, the cache empty.\<close>

definition newPriceProvider ::
  "Source \<Rightarrow> string \<Rightarrow> (AssetPair \<times> Symbol) list \<Rightarrow> PriceProvider" where
  "newPriceProvider src name pairToSymbolsMap =
     \<lparr>stopSignal = False, done_chan = False, source = src, sourceName = name,
      pairToSymbolMapping = pairToSymbolsMap, lastPrices = Map.empty\<rparr>"

text \<open>
  \<open>NewPriceProvider\<close>. The constants \<open>sources.Bitfinex\<close> and \<open>sources.Binance\<close> are
  declared in package \<open>sources\<close>, which is not part of this development; they are the
  first two arguments.
\<close>

definition NewPriceProvider ::
  "string \<Rightarrow> string \<Rightarrow> string \<Rightarrow> (AssetPair \<times> Symbol) list \<Rightarrow> PriceProvider outcome" where
  "NewPriceProvider Bitfinex Binance name pairToSymbolMap =
     (if name = Bitfinex then
        Return (newPriceProvider
          (NewTickSource (symbolsFromPairToSymbolMapping pairToSymbolMap) BitfinexPriceUpdate)
          name pairToSymbolMap)
      else if name = Binance then
        Return (newPriceProvider
          (NewTickSource (symbolsFromPairToSymbolMapping pairToSymbolMap) BinancePriceUpdate)
          name pairToSymbolMap)
      else Panic (''unknown price provider: '' @ name))"

text \<open>
  \<open>isValid\<close>. The constant \<open>types.PriceTimeout\<close> is declared in package \<open>types\<close>,
  which is not part of this development; it is the first argument, and the second is the
  reading of the clock.
\<close>

definition isValid :: "Duration \<Rightarrow> Time \<Rightarrow> RawPrice \<Rightarrow> bool \<Rightarrow> bool" where
  "isValid PriceTimeout now price found =
     (found \<and> time_Since now (UpdateTime price) < PriceTimeout)"

text \<open>
  What \<open>GetPrice\<close> does besides returning: the warning it logs, and the locking and
  unlocking of \<open>lastPricesMutex\<close>.
\<close>

datatype effect = Warn_unknown_pair AssetPair | Mutex_Lock | Mutex_Unlock

text \<open>\<open>GetPrice\<close>: the effects in program order, and the returned \<open>types.Price\<close>.\<close>

definition GetPrice ::
  "Duration \<Rightarrow> Time \<Rightarrow> PriceProvider \<Rightarrow> AssetPair \<Rightarrow> effect list \<times> Price" where
  "GetPrice PriceTimeout now p pair =
     (case map_of (pairToSymbolMapping p) pair of
        None \<Rightarrow>
          ([Warn_unknown_pair pair],
           \<lparr>Pair' = pair, Price = - 1, SourceName = sourceName p, Valid = False\<rparr>)
      | Some symbol \<Rightarrow>
          (let (price, priceExists) =
                 (case lastPrices p symbol of
                    None \<Rightarrow> (RawPrice_zero, False)
                  | Some rp \<Rightarrow> (rp, True))
           in ([Mutex_Lock, Mutex_Unlock],
               \<lparr>Pair' = pair, Price = RawPrice_Price price, SourceName = sourceName p,
                Valid = isValid PriceTimeout now price priceExists\<rparr>)))"

subsection \<open>The consumer goroutine and \<open>Close\<close>\<close>

text \<open>
  \<open>newPriceProvider\<close> starts \<open>loop\<close> in a goroutine of its own, and \<open>Close\<close> runs in
  the goroutine of its caller. The two are interleaved: each keeps a program counter, and
  an action is one atomic step of one of them.
\<close>

datatype loop_pc =
    At_select          \<comment> \<open>blocked in the \<open>select\<close> of \<open>loop\<close>\<close>
  | At_source_Close    \<comment> \<open>returned from the \<open>for\<close>; next: deferred \<open>p.source.Close()\<close>\<close>
  | At_close_done      \<comment> \<open>next: deferred \<open>close(p.done)\<close>\<close>
  | Exited             \<comment> \<open>the goroutine has ended\<close>

datatype Close_pc =
    Not_called         \<comment> \<open>\<open>Close\<close> has not been called\<close>
  | At_wait_done       \<comment> \<open>after \<open>close(p.stopSignal)\<close>, blocked in \<open><-p.done\<close>\<close>
  | Returned           \<comment> \<open>\<open>Close\<close> has returned\<close>

record run_state =
  provider :: PriceProvider
  loop_at :: loop_pc
  Close_at :: Close_pc

datatype action =
    Recv "(Symbol \<times> RawPrice) list"
      \<comment> \<open>the \<open>select\<close> receives a batch from \<open>p.source.PriceUpdates()\<close> and stores it\<close>
  | Stop
      \<comment> \<open>the \<open>select\<close> receives from the closed \<open>p.stopSignal\<close>: \<open>return\<close>\<close>
  | Deferred_source_Close
  | Deferred_close_done
  | Close_signal
      \<comment> \<open>\<open>Close\<close> is called and executes \<open>close(p.stopSignal)\<close>\<close>
  | Close_return
      \<comment> \<open>\<open><-p.done\<close> completes on the closed channel and \<open>Close\<close> returns\<close>

text \<open>The body of the receive case: every entry of the batch is written to the cache.\<close>

fun range_updates ::
  "(Symbol \<rightharpoonup> RawPrice) \<Rightarrow> (Symbol \<times> RawPrice) list \<Rightarrow> (Symbol \<rightharpoonup> RawPrice)" where
  "range_updates cache [] = cache"
| "range_updates cache ((symbol, price) # updates) =
     range_updates (cache(symbol \<mapsto> price)) updates"

text \<open>
  One step; \<open>None\<close> when the action cannot run in the state. The deferred calls of
  \<open>loop\<close> run in the reverse order of their \<open>defer\<close> statements: \<open>p.source.Close()\<close>
  first, \<open>close(p.done)\<close> last. The model follows one call of \<open>Close\<close>.
\<close>

fun step :: "action \<Rightarrow> run_state \<Rightarrow> run_state option" where
  "step (Recv updates) s =
     (if loop_at s = At_select then
        Some (s\<lparr>provider := (provider s)
                 \<lparr>lastPrices := range_updates (lastPrices (provider s)) updates\<rparr>\<rparr>)
      else None)"
| "step Stop s =
     (if loop_at s = At_select \<and> stopSignal (provider s) then
        Some (s\<lparr>loop_at := At_source_Close\<rparr>)
      else None)"
| "step Deferred_source_Close s =
     (if loop_at s = At_source_Close then
        Some (s\<lparr>provider := (provider s)
                 \<lparr>source := (source (provider s))
                    \<lparr>Close_calls := Suc (Close_calls (source (provider s)))\<rparr>\<rparr>,
               loop_at := At_close_done\<rparr>)
      else None)"
| "step Deferred_close_done s =
     (if loop_at s = At_close_done then
        Some (s\<lparr>provider := (provider s)\<lparr>done_chan := True\<rparr>, loop_at := Exited\<rparr>)
      else None)"
| "step Close_signal s =
     (if Close_at s = Not_called then
        Some (s\<lparr>provider := (provider s)\<lparr>stopSignal := True\<rparr>, Close_at := At_wait_done\<rparr>)
      else None)"
| "step Close_return s =
     (if Close_at s = At_wait_done \<and> done_chan (provider s) then
        Some (s\<lparr>Close_at := Returned\<rparr>)
      else None)"

fun run :: "action list \<Rightarrow> run_state \<Rightarrow> run_state option" where
  "run [] s = Some s"
| "run (a # as) s = (case step a s of None \<Rightarrow> None | Some s' \<Rightarrow> run as s')"

text \<open>The batches that a sequence of actions receives, oldest first.\<close>

fun received :: "action list \<Rightarrow> (Symbol \<times> RawPrice) list list" where
  "received [] = []"
| "received (Recv updates # as) = updates # received as"
| "received (a # as) = received as"

text \<open>The state in which \<open>newPriceProvider\<close> leaves a provider: \<open>go pp.loop()\<close>.\<close>

definition started :: "PriceProvider \<Rightarrow> run_state" where
  "started pp = \<lparr>provider = pp, loop_at = At_select, Close_at = Not_called\<rparr>"

text \<open>
  The invariant of the interleaving, for a source whose \<open>Close\<close> had been called
  \<open>c\<close> times when the provider was made: the stop channel is closed exactly once
  \<open>Close\<close> has been called, the loop leaves its \<open>select\<close> only after that, the
  channel \<open>done\<close> is closed exactly when the goroutine has ended, the source is closed
  once more from the first deferred call on, and \<open>Close\<close> returns only after the
  goroutine has ended.
\<close>

definition Close_inv :: "nat \<Rightarrow> run_state \<Rightarrow> bool" where
  "Close_inv c s =
     ((stopSignal (provider s) \<longleftrightarrow> Close_at s \<noteq> Not_called) \<and>
      (loop_at s \<noteq> At_select \<longrightarrow> stopSignal (provider s)) \<and>
      (done_chan (provider s) \<longleftrightarrow> loop_at s = Exited) \<and>
      Close_calls (source (provider s)) =
        (if loop_at s = At_close_done \<or> loop_at s = Exited then Suc c else c) \<and>
      (Close_at s = Returned \<longrightarrow> loop_at s = Exited))"

text \<open>
  The latest tick for a symbol in a sequence of batches, oldest batch first: what the
  cache is specified to hold.
\<close>

fun last_tick :: "(Symbol \<times> RawPrice) list list \<Rightarrow> Symbol \<Rightarrow> RawPrice option" where
  "last_tick [] symbol = None"
| "last_tick (b # bs) symbol =
     (case last_tick bs symbol of
        Some rp \<Rightarrow> Some rp
      | None \<Rightarrow> map_of b symbol)"

section \<open>Package config: the keyring of one private key\<close>

text \<open>
  Keys are their byte strings, and so is an \<open>sdk.AccAddress\<close>, a byte slice.
  \<open>sdk.Address\<close> is an interface: a value of it is nil, or holds an implementation,
  which is given by what its methods return. \<open>Equals\<close> is only ever called with the
  held \<open>AccAddress\<close> as its argument, so it is a predicate on an \<open>AccAddress\<close>; the other
  two components are the results of \<open>Empty()\<close> and \<open>Bytes()\<close>. A method call on the nil
  interface panics with the runtime's nil dereference error. \<open>Sign\<close> of the private key
  is the SDK's secp256k1 signing; it is the argument \<open>PrivKey_Sign\<close> of the functions
  that call it, and returns a signature or an error.
\<close>

type_synonym AccAddress = bytes
type_synonym PubKey = bytes
type_synonym PrivKey = bytes
type_synonym SignatureAlgo = string
type_synonym PubKeyType = string
type_synonym Language = int

datatype Address = Nil_Address | Address "AccAddress \<Rightarrow> bool" bool bytes

datatype KeyType = TypeLocal | TypeLedger | TypeOffline | TypeMulti

definition nil_dereference :: string where
  "nil_dereference = ''runtime error: invalid memory address or nil pointer dereference''"

text \<open>\<open>AccAddress.Empty\<close> of the SDK: a nil or zero-length slice.\<close>

definition AccAddress_Empty :: "AccAddress \<Rightarrow> bool" where
  "AccAddress_Empty aa = (aa = [])"

text \<open>
  \<open>AccAddress.Equals\<close> of the SDK, \<open>aa.Equals(aa2)\<close>: true when both are empty, else
  the comparison of \<open>aa.Bytes()\<close> with \<open>aa2.Bytes()\<close>. Whichever of \<open>aa2.Empty()\<close>
  and \<open>aa2.Bytes()\<close> is reached first panics on the nil interface.
\<close>

definition AccAddress_Equals :: "AccAddress \<Rightarrow> Address \<Rightarrow> bool outcome" where
  "AccAddress_Equals aa aa2 =
     (case aa2 of
        Nil_Address \<Rightarrow> Panic nil_dereference
      | Address aa2_Equals aa2_Empty aa2_Bytes \<Rightarrow>
          Return ((AccAddress_Empty aa \<and> aa2_Empty) \<or> aa = aa2_Bytes))"

text \<open>
  The interface value that holds an address of the SDK with the bytes \<open>bs\<close>. The types
  \<open>AccAddress\<close>, \<open>ValAddress\<close> and \<open>ConsAddress\<close> have the same three methods; this
  is also the conversion of the held \<open>p.addr\<close> to \<open>sdk.Address\<close> where it is passed
  as an argument.
\<close>

definition sdk_Address :: "bytes \<Rightarrow> Address" where
  "sdk_Address bs =
     Address (\<lambda>aa2. (bs = [] \<and> AccAddress_Empty aa2) \<or> bs = aa2) (bs = []) bs"

record privKeyKeyring =
  addr :: AccAddress
  pubKey :: PubKey
  privKey :: PrivKey

record info =
  info_pubKey :: PubKey
  info_addr :: AccAddress

text \<open>\<open>KeyByAddress\<close>: the comparison is the method \<open>Equals\<close> of the argument.\<close>

definition KeyByAddress :: "privKeyKeyring \<Rightarrow> Address \<Rightarrow> (error + info) outcome" where
  "KeyByAddress p address =
     (case address of
        Nil_Address \<Rightarrow> Panic nil_dereference
      | Address address_Equals address_Empty address_Bytes \<Rightarrow>
          (if \<not> address_Equals (addr p) then Return (Inl (Error ''key not found''))
           else Return (Inr \<lparr>info_pubKey = pubKey p, info_addr = addr p\<rparr>)))"

definition Key :: "privKeyKeyring \<Rightarrow> string \<Rightarrow> (error + info) outcome" where
  "Key p uid = KeyByAddress p (sdk_Address (addr p))"

text \<open>\<open>SignByAddress\<close>: the comparison is the method \<open>Equals\<close> of the held address.\<close>

definition SignByAddress ::
  "(PrivKey \<Rightarrow> bytes \<Rightarrow> error + bytes) \<Rightarrow> privKeyKeyring \<Rightarrow> Address \<Rightarrow> bytes
     \<Rightarrow> (error + bytes \<times> PubKey) outcome" where
  "SignByAddress PrivKey_Sign p address msg =
     (case AccAddress_Equals (addr p) address of
        Panic e \<Rightarrow> Panic e
      | Return is_equal \<Rightarrow>
          (if \<not> is_equal then Return (Inl (Error ''key not found''))
           else (case PrivKey_Sign (privKey p) msg of
                   Inl err \<Rightarrow> Return (Inl err)
                 | Inr signed_msg \<Rightarrow> Return (Inr (signed_msg, pubKey p)))))"

definition Sign ::
  "(PrivKey \<Rightarrow> bytes \<Rightarrow> error + bytes) \<Rightarrow> privKeyKeyring \<Rightarrow> string \<Rightarrow> bytes
     \<Rightarrow> (error + bytes \<times> PubKey) outcome" where
  "Sign PrivKey_Sign p uid msg = SignByAddress PrivKey_Sign p (sdk_Address (addr p)) msg"

definition GetType :: "info \<Rightarrow> KeyType" where
  "GetType i = TypeLocal"

definition GetName :: "info \<Rightarrow> string" where
  "GetName i = []"



subsection \<open>Implementations that must never be called\<close>

definition List :: "privKeyKeyring \<Rightarrow> (error + info list) outcome" where
  "List p = Panic ''must never be called''"

definition SupportedAlgorithms ::
  "privKeyKeyring \<Rightarrow> (SignatureAlgo list \<times> SignatureAlgo list) outcome" where
  "SupportedAlgorithms p = Panic ''must never be called''"

definition GetPath :: "info \<Rightarrow> (error + string) outcome" where
  "GetPath i = Panic ''must never be called''"

definition GetAlgo :: "info \<Rightarrow> PubKeyType outcome" where
  "GetAlgo i = Panic ''must never be called''"

definition Delete :: "privKeyKeyring \<Rightarrow> string \<Rightarrow> error option outcome" where
  "Delete p uid = Panic ''must never be called''"

definition DeleteByAddress :: "privKeyKeyring \<Rightarrow> Address \<Rightarrow> error option outcome" where
  "DeleteByAddress p address = Panic ''must never be called''"

definition NewMnemonic ::
  "privKeyKeyring \<Rightarrow> string \<Rightarrow> Language \<Rightarrow> string \<Rightarrow> string \<Rightarrow> SignatureAlgo
     \<Rightarrow> (error + info \<times> string) outcome" where
  "NewMnemonic p uid language hdPath bip39Passphrase algo = Panic ''must never be called''"

definition NewAccount ::
  "privKeyKeyring \<Rightarrow> string \<Rightarrow> string \<Rightarrow> string \<Rightarrow> string \<Rightarrow> SignatureAlgo
     \<Rightarrow> (error + info) outcome" where
  "NewAccount p uid mnemonic bip39Passphrase hdPath algo = Panic ''must never be called''"

definition SaveLedgerKey ::
  "privKeyKeyring \<Rightarrow> string \<Rightarrow> SignatureAlgo \<Rightarrow> string \<Rightarrow> 32 word \<Rightarrow> 32 word \<Rightarrow> 32 word
     \<Rightarrow> (error + info) outcome" where
  "SaveLedgerKey p uid algo hrp coinType account index = Panic ''must never be called''"

definition SavePubKey ::
  "privKeyKeyring \<Rightarrow> string \<Rightarrow> PubKey \<Rightarrow> PubKeyType \<Rightarrow> (error + info) outcome" where
  "SavePubKey p uid pubkey algo = Panic ''must never be called''"

definition SaveMultisig ::
  "privKeyKeyring \<Rightarrow> string \<Rightarrow> PubKey \<Rightarrow> (error + info) outcome" where
  "SaveMultisig p uid pubkey = Panic ''must never be called''"

definition ImportPrivKey ::
  "privKeyKeyring \<Rightarrow> string \<Rightarrow> string \<Rightarrow> string \<Rightarrow> error option outcome" where
  "ImportPrivKey p uid armor passphrase = Panic ''must never be called''"

definition ImportPubKey :: "privKeyKeyring \<Rightarrow> string \<Rightarrow> string \<Rightarrow> error option outcome" where
  "ImportPubKey p uid armor = Panic ''must never be called''"

definition ExportPubKeyArmor :: "privKeyKeyring \<Rightarrow> string \<Rightarrow> (error + string) outcome" where
  "ExportPubKeyArmor p uid = Panic ''must never be called''"

definition ExportPubKeyArmorByAddress ::
  "privKeyKeyring \<Rightarrow> Address \<Rightarrow> (error + string) outcome" where
  "ExportPubKeyArmorByAddress p address = Panic ''must never be called''"

definition ExportPrivKeyArmor ::
  "privKeyKeyring \<Rightarrow> string \<Rightarrow> string \<Rightarrow> (error + string) outcome" where
  "ExportPrivKeyArmor p uid encryptPassphrase = Panic ''must never be called''"

definition ExportPrivKeyArmorByAddress ::
  "privKeyKeyring \<Rightarrow> Address \<Rightarrow> string \<Rightarrow> (error + string) outcome" where
  "ExportPrivKeyArmorByAddress p address encryptPassphrase = Panic ''must never be called''"

section \<open>Package feeder\<close>

text \<open>
  Of this package only \<open>feeder_test.go\<close> is available and \<open>feeder.go\<close> is missing,
  so the Feeder is written from the specification, and from what the tests require of
  it. The Feeder sees its price provider through the interface \<open>types.PriceProvider\<close>:
  a function from an asset pair to a \<open>types.Price\<close>.
\<close>

text \<open>The price that \<open>GetPrice\<close> returns, as the interface method gives it.\<close>

definition GetPrice_result ::
  "Duration \<Rightarrow> Time \<Rightarrow> PriceProvider \<Rightarrow> AssetPair \<Rightarrow> Price" where
  "GetPrice_result PriceTimeout now p pair = snd (GetPrice PriceTimeout now p pair)"

text \<open>
  Modelled from the spec: the state of the Feeder (\<open>feeder.go\<close> is missing), "owns
  current parameters"; the test harness builds it with the field \<open>params\<close>.
\<close>

record Feeder =
  params :: Params


text \<open>
  Modelled from the spec: the reaction to a parameter update (\<open>feeder.go\<close> is missing),
  "atomically replaces the held Params".
\<close>

definition handleParamsUpdate :: "Feeder \<Rightarrow> Params \<Rightarrow> Feeder" where
  "handleParamsUpdate f ps = f\<lparr>params := ps\<rparr>"

text \<open>
  Modelled from the spec: the abstain convention for one vote (\<open>feeder.go\<close> is missing),
  "valid=false, price forced to the abstain convention"; \<open>TestVotingPeriod\<close> fixes the
  convention to the price \<open>0.0\<close>, every other field kept.
\<close>

definition abstain :: "Price \<Rightarrow> Price" where
  "abstain price = (if Valid price then price else price\<lparr>Price := 0\<rparr>)"

text \<open>
  Modelled from the spec: the assembly of the vote list (\<open>feeder.go\<close> is missing), "for
  each pair in the current Params.pairs, queries the pair's PriceProvider via GetPrice,
  preserving Params.pairs order in the resulting vote list".
\<close>

fun votes :: "(AssetPair \<Rightarrow> Price) \<Rightarrow> AssetPair list \<Rightarrow> Price list" where
  "votes getPrice [] = []"
| "votes getPrice (pair # pairs) = abstain (getPrice pair) # votes getPrice pairs"

text \<open>
  Modelled from the spec: the interface \<open>PricePoster\<close> (its declaration is missing),
  "sendPrices(height, orderedPrices)". A call of it is recorded with its arguments.
\<close>

datatype poster_call = SendPrices nat "Price list"

text \<open>
  Modelled from the spec: the reaction to a voting-period-start event (\<open>feeder.go\<close> is
  missing), "hands the ordered vote list and the triggering height to
  PricePoster.SendPrices".
\<close>

definition handleVotingPeriod ::
  "(AssetPair \<Rightarrow> Price) \<Rightarrow> Feeder \<Rightarrow> VotingPeriod \<Rightarrow> poster_call" where
  "handleVotingPeriod getPrice f vp =
     SendPrices (Height vp) (votes getPrice (Pairs (params f)))"

text \<open>
  Modelled from the spec: what the interface \<open>EventStream\<close> delivers (its declaration is
  missing), "inbound sequence of Params" and "inbound sequence of VotingPeriod".
\<close>

datatype event = ParamsUpdate Params | VotingPeriodStarted VotingPeriod

text \<open>
  Modelled from the spec: one iteration of the reactive loop of the Feeder
  (\<open>feeder.go\<close> is missing), "all reactions happen inline within one iteration of the
  reactive loop". The state is the Feeder and the calls made on the price poster so far.
\<close>

fun react ::
  "(AssetPair \<Rightarrow> Price) \<Rightarrow> Feeder \<times> poster_call list \<Rightarrow> event
     \<Rightarrow> Feeder \<times> poster_call list" where
  "react getPrice (f, sent) (ParamsUpdate ps) = (handleParamsUpdate f ps, sent)"
| "react getPrice (f, sent) (VotingPeriodStarted vp) =
     (f, sent @ [handleVotingPeriod getPrice f vp])"

text \<open>
  Modelled from the spec: the loop itself (\<open>feeder.go\<close> is missing), a "single
  long-lived task reactive loop" that reacts to the events in the order of their arrival.
\<close>

fun feeder_loop ::
  "(AssetPair \<Rightarrow> Price) \<Rightarrow> Feeder \<times> poster_call list \<Rightarrow> event list
     \<Rightarrow> Feeder \<times> poster_call list" where
  "feeder_loop getPrice st [] = st"
| "feeder_loop getPrice st (ev # evs) = feeder_loop getPrice (react getPrice st ev) evs"

section \<open>Properties of the price provider\<close>

subsection \<open>The cache holds the latest tick\<close>

lemma range_updates_map_of:
  "distinct (map fst b) \<Longrightarrow> range_updates c b = c ++ map_of b"
proof (induction b arbitrary: c)
  case Nil
  then show ?case by simp
next
  case (Cons e b)
  obtain k v where e: "e = (k, v)" by (cases e)
  from Cons.prems e have k: "k \<notin> dom (map_of b)" and d: "distinct (map fst b)"
    by (auto simp: dom_map_of_conv_image_fst)
  have "range_updates c (e # b) = range_updates (c(k \<mapsto> v)) b"
    using e by simp
  also have "\<dots> = c(k \<mapsto> v) ++ map_of b"
    by (rule Cons.IH [OF d])
  also have "\<dots> = (c ++ map_of b)(k \<mapsto> v)"
    using k by (simp add: map_add_upd_left)
  also have "\<dots> = c ++ map_of (e # b)"
    unfolding e by simp
  finally show ?case .
qed

lemma range_updates_lookup:
  "distinct (map fst b) \<Longrightarrow>
   range_updates c b x = (case map_of b x of None \<Rightarrow> c x | Some r \<Rightarrow> Some r)"
  by (simp add: range_updates_map_of map_add_def)

lemma foldl_range_updates:
  "\<forall>b \<in> set bs. distinct (map fst b) \<Longrightarrow>
   foldl range_updates c bs x = (case last_tick bs x of None \<Rightarrow> c x | Some r \<Rightarrow> Some r)"
proof (induction bs arbitrary: c)
  case Nil
  then show ?case by simp
next
  case (Cons b bs)
  then show ?case
    by (simp add: range_updates_lookup split: option.splits)
qed

lemma step_cache:
  "step a s = Some s' \<Longrightarrow>
   lastPrices (provider s') = foldl range_updates (lastPrices (provider s)) (received [a])"
  by (cases a) (auto split: if_splits)

lemma received_Cons: "received (a # as) = received [a] @ received as"
  by (cases a) simp_all

lemma run_cache:
  "run acts s = Some s' \<Longrightarrow>
   lastPrices (provider s') = foldl range_updates (lastPrices (provider s)) (received acts)"
proof (induction acts arbitrary: s)
  case Nil
  then show ?case by simp
next
  case (Cons a acts)
  from Cons.prems obtain s1 where s1: "step a s = Some s1" and r: "run acts s1 = Some s'"
    by (auto split: option.splits)
  show ?case
    using Cons.IH [OF r] step_cache [OF s1] received_Cons [of a acts] by simp
qed

lemma step_fixed:
  "step a s = Some s' \<Longrightarrow>
   pairToSymbolMapping (provider s') = pairToSymbolMapping (provider s) \<and>
   sourceName (provider s') = sourceName (provider s)"
  by (cases a) (auto split: if_splits)

lemma run_fixed:
  "run acts s = Some s' \<Longrightarrow>
   pairToSymbolMapping (provider s') = pairToSymbolMapping (provider s) \<and>
   sourceName (provider s') = sourceName (provider s)"
proof (induction acts arbitrary: s)
  case Nil
  then show ?case by simp
next
  case (Cons a acts)
  from Cons.prems obtain s1 where s1: "step a s = Some s1" and r: "run acts s1 = Some s'"
    by (auto split: option.splits)
  show ?case using Cons.IH [OF r] step_fixed [OF s1] by simp
qed

lemma time_Since_less_iff:
  "minDuration < T \<Longrightarrow> T \<le> maxDuration \<Longrightarrow> (time_Since now t < T) = (now - t < T)"
  by (auto simp: time_Since_def Time_Sub_def Let_def)

lemma GetPrice_cached:
  assumes "map_of (pairToSymbolMapping p) pair = Some symbol"
  shows "GetPrice T now p pair =
     ([Mutex_Lock, Mutex_Unlock],
      \<lparr>Pair' = pair,
       Price = (case lastPrices p symbol of None \<Rightarrow> 0 | Some rp \<Rightarrow> RawPrice_Price rp),
       SourceName = sourceName p,
       Valid = (case lastPrices p symbol of None \<Rightarrow> False
                | Some rp \<Rightarrow> time_Since now (UpdateTime rp) < T)\<rparr>)"
  using assms
  by (simp add: GetPrice_def isValid_def RawPrice_zero_def split: option.splits)


text \<open>
  Claim C1. A provider is made by \<open>newPriceProvider\<close> and its goroutines run any
  sequence of actions whose batches are Go maps. Then for a pair that the symbol mapping
  maps to a symbol, \<open>GetPrice\<close> locks and unlocks the cache and returns the pair, the
  source name, the raw cached price of the symbol (zero when the cache has no entry, the
  cached value otherwise, whatever its age), and a valid flag that holds exactly when
  there is a cache entry and \<open>time.Since\<close> of its update time is strictly less than
  the timeout. The cache entry of the symbol is its latest received tick, and there is
  none exactly when no batch held the symbol. For a timeout above the least Duration,
  the saturated \<open>time.Since\<close> is below the timeout exactly when the true age is.
\<close>

theorem GetPrice_mapped:
  assumes "run acts (started (newPriceProvider src name m)) = Some s"
    and "\<forall>b \<in> set (received acts). distinct (map fst b)"
    and "map_of m pair = Some symbol"
  shows "GetPrice T now (provider s) pair =
     ([Mutex_Lock, Mutex_Unlock],
      \<lparr>Pair' = pair,
       Price = (case lastPrices (provider s) symbol of
                  None \<Rightarrow> 0 | Some rp \<Rightarrow> RawPrice_Price rp),
       SourceName = name,
       Valid = (case lastPrices (provider s) symbol of
                  None \<Rightarrow> False
                | Some rp \<Rightarrow> time_Since now (UpdateTime rp) < T)\<rparr>)
     \<and> lastPrices (provider s) symbol = last_tick (received acts) symbol
     \<and> (\<forall>t. minDuration < T \<and> T \<le> maxDuration \<longrightarrow>
           (time_Since now t < T) = (now - t < T))"
proof -
  have age: "\<forall>t. minDuration < T \<and> T \<le> maxDuration \<longrightarrow>
           (time_Since now t < T) = (now - t < T)"
    by (simp add: time_Since_less_iff)
  have fixed: "pairToSymbolMapping (provider s) = m" "sourceName (provider s) = name"
    using run_fixed [OF assms(1)] by (simp_all add: started_def newPriceProvider_def)
  have "lastPrices (provider s) = foldl range_updates Map.empty (received acts)"
    using run_cache [OF assms(1)] by (simp add: started_def newPriceProvider_def)
  then have cache: "lastPrices (provider s) symbol = last_tick (received acts) symbol"
    using foldl_range_updates [OF assms(2), of Map.empty symbol]
    by (simp split: option.splits)
  from assms(3) fixed have "map_of (pairToSymbolMapping (provider s)) pair = Some symbol"
    by simp
  from GetPrice_cached [OF this, of T now] fixed cache age show ?thesis by simp
qed

theorem GetPrice_mapped_witness:
  "run [Recv [(''tBTCUSD'', \<lparr>RawPrice_Price = 100000.8, UpdateTime = 1000\<rparr>)],
        Close_signal,
        Recv [(''tBTCUSD'', \<lparr>RawPrice_Price = 99000.5, UpdateTime = 2000\<rparr>)]]
       (started (newPriceProvider (NewTickSource [''tBTCUSD''] BitfinexPriceUpdate)
          ''bitfinex'' [(AssetPair ''ubtc'' ''unusd'', ''tBTCUSD'')]))
     = Some \<lparr>provider =
               \<lparr>stopSignal = True, done_chan = False,
                source = NewTickSource [''tBTCUSD''] BitfinexPriceUpdate,
                sourceName = ''bitfinex'',
                pairToSymbolMapping = [(AssetPair ''ubtc'' ''unusd'', ''tBTCUSD'')],
                lastPrices =
                  [''tBTCUSD'' \<mapsto> \<lparr>RawPrice_Price = 99000.5, UpdateTime = 2000\<rparr>]\<rparr>,
             loop_at = At_select, Close_at = At_wait_done\<rparr>
   \<and> received
         [Recv [(''tBTCUSD'', \<lparr>RawPrice_Price = 100000.8, UpdateTime = 1000\<rparr>)],
          Close_signal,
          Recv [(''tBTCUSD'', \<lparr>RawPrice_Price = 99000.5, UpdateTime = 2000\<rparr>)]]
       = [[(''tBTCUSD'', \<lparr>RawPrice_Price = 100000.8, UpdateTime = 1000\<rparr>)],
          [(''tBTCUSD'', \<lparr>RawPrice_Price = 99000.5, UpdateTime = 2000\<rparr>)]]
   \<and> distinct (map fst [(''tBTCUSD'', \<lparr>RawPrice_Price = 100000.8, UpdateTime = 1000\<rparr>)])
   \<and> distinct (map fst [(''tBTCUSD'', \<lparr>RawPrice_Price = 99000.5, UpdateTime = 2000\<rparr>)])
   \<and> map_of [(AssetPair ''ubtc'' ''unusd'', ''tBTCUSD'')] (AssetPair ''ubtc'' ''unusd'')
       = Some ''tBTCUSD''
   \<and> GetPrice 15000000000 20000002000
        \<lparr>stopSignal = True, done_chan = False,
         source = NewTickSource [''tBTCUSD''] BitfinexPriceUpdate,
         sourceName = ''bitfinex'',
         pairToSymbolMapping = [(AssetPair ''ubtc'' ''unusd'', ''tBTCUSD'')],
         lastPrices =
           [''tBTCUSD'' \<mapsto> \<lparr>RawPrice_Price = 99000.5, UpdateTime = 2000\<rparr>]\<rparr>
        (AssetPair ''ubtc'' ''unusd'')
       = ([Mutex_Lock, Mutex_Unlock],
          \<lparr>Pair' = AssetPair ''ubtc'' ''unusd'', Price = 99000.5,
           SourceName = ''bitfinex'', Valid = False\<rparr>)"
proof -
  let ?acts = "[Recv [(''tBTCUSD'', \<lparr>RawPrice_Price = 100000.8, UpdateTime = 1000\<rparr>)],
        Close_signal,
        Recv [(''tBTCUSD'', \<lparr>RawPrice_Price = 99000.5, UpdateTime = 2000\<rparr>)]]"
  let ?m = "[(AssetPair ''ubtc'' ''unusd'', ''tBTCUSD'')]"
  let ?src = "NewTickSource [''tBTCUSD''] BitfinexPriceUpdate"
  let ?p = "\<lparr>stopSignal = True, done_chan = False, source = ?src,
         sourceName = ''bitfinex'', pairToSymbolMapping = ?m,
         lastPrices =
           [''tBTCUSD'' \<mapsto> \<lparr>RawPrice_Price = 99000.5, UpdateTime = 2000\<rparr>]\<rparr>"
  let ?s = "\<lparr>provider = ?p, loop_at = At_select, Close_at = At_wait_done\<rparr>"
  have h1: "run ?acts (started (newPriceProvider ?src ''bitfinex'' ?m)) = Some ?s"
    by (simp add: started_def newPriceProvider_def)
  have h2: "\<forall>b \<in> set (received ?acts). distinct (map fst b)"
    by simp
  have h3: "map_of ?m (AssetPair ''ubtc'' ''unusd'') = Some ''tBTCUSD''"
    by simp
  have t: "time_Since 20000002000 2000 = 20000000000"
    by (simp add: time_Since_def Time_Sub_def maxDuration_def minDuration_def)
  from GetPrice_mapped [OF h1 h2 h3, of 15000000000 20000002000] h1 h2 h3 t
  show ?thesis by simp
qed


text \<open>
  Claim C2. For a pair that the symbol mapping does not hold, \<open>GetPrice\<close> returns the
  pair with the price \<open>-1\<close>, the provider's source name and the valid flag false; its
  only effect is the logged warning, so the cache lock is not taken. The result is a
  plain \<open>types.Price\<close>: the function has no error result and no panic.
\<close>

theorem GetPrice_unmapped:
  assumes "map_of (pairToSymbolMapping p) pair = None"
  shows "GetPrice PriceTimeout now p pair =
           ([Warn_unknown_pair pair],
            \<lparr>Pair' = pair, Price = - 1, SourceName = sourceName p, Valid = False\<rparr>)
         \<and> Mutex_Lock \<notin> set (fst (GetPrice PriceTimeout now p pair))"
  using assms by (simp add: GetPrice_def)

theorem GetPrice_unmapped_witness:
  "map_of (pairToSymbolMapping
       (newPriceProvider (NewTickSource [''tBTCUSD''] BitfinexPriceUpdate) ''bitfinex''
          [(AssetPair ''ubtc'' ''unusd'', ''tBTCUSD'')]))
     (AssetPair ''ueth'' ''unusd'') = None
   \<and> GetPrice 15000000000 1000
       (newPriceProvider (NewTickSource [''tBTCUSD''] BitfinexPriceUpdate) ''bitfinex''
          [(AssetPair ''ubtc'' ''unusd'', ''tBTCUSD'')])
       (AssetPair ''ueth'' ''unusd'')
     = ([Warn_unknown_pair (AssetPair ''ueth'' ''unusd'')],
        \<lparr>Pair' = AssetPair ''ueth'' ''unusd'', Price = - 1, SourceName = ''bitfinex'',
         Valid = False\<rparr>)"
proof -
  have h: "map_of (pairToSymbolMapping
       (newPriceProvider (NewTickSource [''tBTCUSD''] BitfinexPriceUpdate) ''bitfinex''
          [(AssetPair ''ubtc'' ''unusd'', ''tBTCUSD'')]))
     (AssetPair ''ueth'' ''unusd'') = None"
    by (simp add: newPriceProvider_def)
  from GetPrice_unmapped [OF h, of 15000000000 1000] h show ?thesis
    by (simp add: newPriceProvider_def)
qed

subsection \<open>Closing the provider\<close>

lemma Close_inv_started:
  "Close_inv (Close_calls src) (started (newPriceProvider src name m))"
  by (simp add: Close_inv_def started_def newPriceProvider_def)

lemma Close_inv_step:
  "Close_inv c s \<Longrightarrow> step a s = Some s' \<Longrightarrow> Close_inv c s'"
  by (cases a) (auto simp: Close_inv_def split: if_splits)

lemma Close_inv_run:
  "Close_inv c s \<Longrightarrow> run acts s = Some s' \<Longrightarrow> Close_inv c s'"
proof (induction acts arbitrary: s)
  case Nil
  then show ?case by simp
next
  case (Cons a acts)
  from Cons.prems(2) obtain s1 where s1: "step a s = Some s1" and r: "run acts s1 = Some s'"
    by (auto split: option.splits)
  from Cons.IH [OF Close_inv_step [OF Cons.prems(1) s1] r] show ?case .
qed

lemma step_after_Close:
  "Close_at s = Returned \<Longrightarrow> loop_at s = Exited \<Longrightarrow> step a s = None"
  by (cases a) simp_all

lemma run_after_Close:
  "Close_at s = Returned \<Longrightarrow> loop_at s = Exited \<Longrightarrow> run rest s = Some s' \<Longrightarrow> s' = s"
  by (cases rest) (simp_all add: step_after_Close)


text \<open>
  Claim C8. In every state that the interleaving of the consumer goroutine and one call
  of \<open>Close\<close> can reach from a new provider, if \<open>Close\<close> has returned then the stop
  channel has been closed, the consumer goroutine has ended (and closed \<open>done\<close>), the
  source's \<open>Close\<close> has been called exactly once by the provider, and no action can
  run any more: every continuation leaves the cache and the source as they are.
\<close>

theorem Close_waits_for_loop:
  assumes "run acts (started (newPriceProvider src name m)) = Some s"
    and "Close_at s = Returned"
  shows "stopSignal (provider s) \<and> loop_at s = Exited \<and> done_chan (provider s)
     \<and> Close_calls (source (provider s)) = Suc (Close_calls src)
     \<and> (\<forall>a. step a s = None)
     \<and> (\<forall>rest s'. run rest s = Some s' \<longrightarrow>
           lastPrices (provider s') = lastPrices (provider s)
           \<and> Close_calls (source (provider s')) = Suc (Close_calls src))"
proof -
  have inv: "Close_inv (Close_calls src) s"
    using Close_inv_run [OF Close_inv_started assms(1)] .
  with assms(2) have ex: "loop_at s = Exited"
    by (simp add: Close_inv_def)
  have facts: "stopSignal (provider s)" "done_chan (provider s)"
    "Close_calls (source (provider s)) = Suc (Close_calls src)"
    using inv ex assms(2) by (simp_all add: Close_inv_def)
  have "\<forall>a. step a s = None"
    using step_after_Close [OF assms(2) ex] by simp
  moreover have "\<forall>rest s'. run rest s = Some s' \<longrightarrow>
           lastPrices (provider s') = lastPrices (provider s)
           \<and> Close_calls (source (provider s')) = Suc (Close_calls src)"
    using run_after_Close [OF assms(2) ex] facts(3) by blast
  ultimately show ?thesis using ex facts by simp
qed

theorem Close_waits_for_loop_witness:
  "run [Recv [(''tBTCUSD'', \<lparr>RawPrice_Price = 100000.8, UpdateTime = 1000\<rparr>)],
        Close_signal,
        Recv [(''tBTCUSD'', \<lparr>RawPrice_Price = 99000.5, UpdateTime = 2000\<rparr>)],
        Stop, Deferred_source_Close, Deferred_close_done, Close_return]
       (started (newPriceProvider (NewTickSource [''tBTCUSD''] BitfinexPriceUpdate)
          ''bitfinex'' [(AssetPair ''ubtc'' ''unusd'', ''tBTCUSD'')]))
     = Some \<lparr>provider =
               \<lparr>stopSignal = True, done_chan = True,
                source = \<lparr>symbols = [''tBTCUSD''], fetch = BitfinexPriceUpdate,
                          Close_calls = 1\<rparr>,
                sourceName = ''bitfinex'',
                pairToSymbolMapping = [(AssetPair ''ubtc'' ''unusd'', ''tBTCUSD'')],
                lastPrices =
                  [''tBTCUSD'' \<mapsto> \<lparr>RawPrice_Price = 99000.5, UpdateTime = 2000\<rparr>]\<rparr>,
             loop_at = Exited, Close_at = Returned\<rparr>
   \<and> step (Recv [(''tBTCUSD'', \<lparr>RawPrice_Price = 1, UpdateTime = 3000\<rparr>)])
        \<lparr>provider =
               \<lparr>stopSignal = True, done_chan = True,
                source = \<lparr>symbols = [''tBTCUSD''], fetch = BitfinexPriceUpdate,
                          Close_calls = 1\<rparr>,
                sourceName = ''bitfinex'',
                pairToSymbolMapping = [(AssetPair ''ubtc'' ''unusd'', ''tBTCUSD'')],
                lastPrices =
                  [''tBTCUSD'' \<mapsto> \<lparr>RawPrice_Price = 99000.5, UpdateTime = 2000\<rparr>]\<rparr>,
             loop_at = Exited, Close_at = Returned\<rparr> = None"
proof -
  let ?acts = "[Recv [(''tBTCUSD'', \<lparr>RawPrice_Price = 100000.8, UpdateTime = 1000\<rparr>)],
        Close_signal,
        Recv [(''tBTCUSD'', \<lparr>RawPrice_Price = 99000.5, UpdateTime = 2000\<rparr>)],
        Stop, Deferred_source_Close, Deferred_close_done, Close_return]"
  let ?m = "[(AssetPair ''ubtc'' ''unusd'', ''tBTCUSD'')]"
  let ?src = "NewTickSource [''tBTCUSD''] BitfinexPriceUpdate"
  let ?s = "\<lparr>provider =
               \<lparr>stopSignal = True, done_chan = True,
                source = \<lparr>symbols = [''tBTCUSD''], fetch = BitfinexPriceUpdate,
                          Close_calls = 1\<rparr>,
                sourceName = ''bitfinex'', pairToSymbolMapping = ?m,
                lastPrices =
                  [''tBTCUSD'' \<mapsto> \<lparr>RawPrice_Price = 99000.5, UpdateTime = 2000\<rparr>]\<rparr>,
             loop_at = Exited, Close_at = Returned\<rparr>"
  have h1: "run ?acts (started (newPriceProvider ?src ''bitfinex'' ?m)) = Some ?s"
    by (simp add: started_def newPriceProvider_def NewTickSource_def)
  have h2: "Close_at ?s = Returned"
    by simp
  from Close_waits_for_loop [OF h1 h2] h1 show ?thesis
    by blast
qed


subsection \<open>Making a provider\<close>

lemma symbolsFromPairToSymbolMapping_map:
  "symbolsFromPairToSymbolMapping m = map snd m"
  by (induction m rule: symbolsFromPairToSymbolMapping.induct) simp_all


text \<open>
  Claim C10. \<open>NewPriceProvider\<close> panics with the message
  \<open>unknown price provider: \<close> followed by the name for every source name other than
  \<open>sources.Bitfinex\<close> and \<open>sources.Binance\<close>. For these two it returns a provider
  with open channels and an empty cache, holding the given name and mapping, whose source
  is the unclosed tick source built from the exchange's fetch function and the list of
  \<open>symbolsFromPairToSymbolMapping\<close>; that list has one symbol per entry of the
  mapping, in its order, and its elements are exactly the symbols that the mapping maps
  some pair to.
\<close>

theorem NewPriceProvider_sources:
  "(name \<noteq> Bitfinex \<and> name \<noteq> Binance \<longrightarrow>
      NewPriceProvider Bitfinex Binance name m = Panic (''unknown price provider: '' @ name))
   \<and> (name = Bitfinex \<or> name = Binance \<longrightarrow>
        NewPriceProvider Bitfinex Binance name m =
          Return \<lparr>stopSignal = False, done_chan = False,
                  source = \<lparr>symbols = map snd m,
                            fetch = (if name = Bitfinex then BitfinexPriceUpdate
                                     else BinancePriceUpdate),
                            Close_calls = 0\<rparr>,
                  sourceName = name, pairToSymbolMapping = m, lastPrices = Map.empty\<rparr>)
   \<and> symbolsFromPairToSymbolMapping m = map snd m
   \<and> set (symbolsFromPairToSymbolMapping m) = snd ` set m
   \<and> length (symbolsFromPairToSymbolMapping m) = length m
   \<and> (distinct (map fst m) \<longrightarrow> set (symbolsFromPairToSymbolMapping m) = ran (map_of m))"
proof -
  have "distinct (map fst m) \<Longrightarrow> snd ` set m = ran (map_of m)"
    by (simp add: ran_distinct)
  then show ?thesis
    by (auto simp: NewPriceProvider_def newPriceProvider_def NewTickSource_def
        symbolsFromPairToSymbolMapping_map)
qed

theorem NewPriceProvider_sources_witness:
  "NewPriceProvider ''bitfinex'' ''binance'' ''kraken''
     [(AssetPair ''ubtc'' ''unusd'', ''tBTCUSD''), (AssetPair ''ueth'' ''unusd'', ''tETHUSD'')]
     = Panic ''unknown price provider: kraken''
   \<and> NewPriceProvider ''bitfinex'' ''binance'' ''binance''
     [(AssetPair ''ubtc'' ''unusd'', ''BTCUSD''), (AssetPair ''ueth'' ''unusd'', ''ETHUSD'')]
     = Return \<lparr>stopSignal = False, done_chan = False,
               source = \<lparr>symbols = [''BTCUSD'', ''ETHUSD''], fetch = BinancePriceUpdate,
                         Close_calls = 0\<rparr>,
               sourceName = ''binance'',
               pairToSymbolMapping =
                 [(AssetPair ''ubtc'' ''unusd'', ''BTCUSD''),
                  (AssetPair ''ueth'' ''unusd'', ''ETHUSD'')],
               lastPrices = Map.empty\<rparr>
   \<and> distinct (map fst
         [(AssetPair ''ubtc'' ''unusd'', ''BTCUSD''), (AssetPair ''ueth'' ''unusd'', ''ETHUSD'')])
   \<and> ran (map_of
         [(AssetPair ''ubtc'' ''unusd'', ''BTCUSD''), (AssetPair ''ueth'' ''unusd'', ''ETHUSD'')])
       = {''BTCUSD'', ''ETHUSD''}"
proof -
  let ?m = "[(AssetPair ''ubtc'' ''unusd'', ''BTCUSD''), (AssetPair ''ueth'' ''unusd'', ''ETHUSD'')]"
  let ?m' = "[(AssetPair ''ubtc'' ''unusd'', ''tBTCUSD''), (AssetPair ''ueth'' ''unusd'', ''tETHUSD'')]"
  have d: "distinct (map fst ?m)"
    by simp
  from NewPriceProvider_sources [of "''kraken''" "''bitfinex''" "''binance''" ?m']
    NewPriceProvider_sources [of "''binance''" "''bitfinex''" "''binance''" ?m] d
  show ?thesis
    by simp
qed

section \<open>Properties of the keyring\<close>

lemma AccAddress_Equals_sdk:
  "AccAddress_Equals aa (sdk_Address bs) = Return (aa = bs)"
  by (auto simp: AccAddress_Equals_def sdk_Address_def AccAddress_Empty_def)

lemma KeyByAddress_sdk:
  "KeyByAddress p (sdk_Address bs) =
     (if bs = addr p then Return (Inr \<lparr>info_pubKey = pubKey p, info_addr = addr p\<rparr>)
      else Return (Inl (Error ''key not found'')))"
  by (auto simp: KeyByAddress_def sdk_Address_def AccAddress_Empty_def)

lemma SignByAddress_sdk:
  "SignByAddress PrivKey_Sign p (sdk_Address bs) msg =
     (if bs = addr p then
        (case PrivKey_Sign (privKey p) msg of
           Inl err \<Rightarrow> Return (Inl err)
         | Inr signed_msg \<Rightarrow> Return (Inr (signed_msg, pubKey p)))
      else Return (Inl (Error ''key not found'')))"
  by (auto simp: SignByAddress_def AccAddress_Equals_sdk)




text \<open>
  Claim C9. \<open>Key\<close> and \<open>Sign\<close> do not look at the uid: for every uid, \<open>Key\<close>
  returns the info of the held key and never the error \<open>key not found\<close>, and \<open>Sign\<close>
  signs the message with the held private key and returns the held public key with the
  signature.
\<close>

theorem Key_Sign_ignore_uid:
  "Key p uid = Return (Inr \<lparr>info_pubKey = pubKey p, info_addr = addr p\<rparr>)
   \<and> Sign PrivKey_Sign p uid msg =
       (case PrivKey_Sign (privKey p) msg of
          Inl err \<Rightarrow> Return (Inl err)
        | Inr signed_msg \<Rightarrow> Return (Inr (signed_msg, pubKey p)))
   \<and> Key p uid = Key p uid'
   \<and> Sign PrivKey_Sign p uid msg = Sign PrivKey_Sign p uid' msg
   \<and> Key p uid \<noteq> Return (Inl (Error ''key not found''))"
  by (simp add: Key_def Sign_def SignByAddress_sdk KeyByAddress_sdk)

theorem Key_Sign_ignore_uid_witness:
  "Key \<lparr>addr = [1, 2], pubKey = [3], privKey = [4]\<rparr> ''feeder''
     = Return (Inr \<lparr>info_pubKey = [3], info_addr = [1, 2]\<rparr>)
   \<and> Key \<lparr>addr = [1, 2], pubKey = [3], privKey = [4]\<rparr> ''nobody''
     = Return (Inr \<lparr>info_pubKey = [3], info_addr = [1, 2]\<rparr>)
   \<and> Sign (\<lambda>key msg. Inr (key @ msg)) \<lparr>addr = [1, 2], pubKey = [3], privKey = [4]\<rparr>
       ''nobody'' [5, 6] = Return (Inr ([4, 5, 6], [3]))"
proof -
  let ?p = "\<lparr>addr = [1, 2], pubKey = [3], privKey = [4]\<rparr> :: privKeyKeyring"
  let ?S = "\<lambda>key msg. Inr (key @ msg) :: error + bytes"
  have a: "Key ?p ''feeder'' = Return (Inr \<lparr>info_pubKey = [3], info_addr = [1, 2]\<rparr>)"
    using Key_Sign_ignore_uid [of ?p "''feeder''" ?S "[5, 6]" "''nobody''"] by simp
  have b: "Key ?p ''nobody'' = Return (Inr \<lparr>info_pubKey = [3], info_addr = [1, 2]\<rparr>)"
    using Key_Sign_ignore_uid [of ?p "''nobody''" ?S "[5, 6]" "''feeder''"] by simp
  have c: "Sign ?S ?p ''nobody'' [5, 6] = Return (Inr ([4, 5, 6], [3]))"
    using Key_Sign_ignore_uid [of ?p "''nobody''" ?S "[5, 6]" "''feeder''"] by simp
  from a b c show ?thesis by simp
qed


text \<open>
  Claim C7, as stated, fails: \<open>List\<close> on a keyring does not return a failure to its
  caller, it panics.
\<close>

theorem List_panics_counterexample:
  "List \<lparr>addr = [1, 2], pubKey = [3], privKey = [4]\<rparr> = Panic ''must never be called''"
  by (simp add: List_def)


text \<open>
  Claim C7, amended. Every method of the keyring other than \<open>Key\<close>, \<open>KeyByAddress\<close>,
  \<open>Sign\<close> and \<open>SignByAddress\<close>, and the methods \<open>GetPath\<close> and \<open>GetAlgo\<close> of its
  key info, panics with the message \<open>must never be called\<close>, for all arguments; none
  returns a value or an error.
\<close>

theorem unsupported_operations_panic:
  "List p = Panic ''must never be called''
   \<and> SupportedAlgorithms p = Panic ''must never be called''
   \<and> Delete p uid = Panic ''must never be called''
   \<and> DeleteByAddress p address = Panic ''must never be called''
   \<and> NewMnemonic p uid language hdPath bip39Passphrase algo = Panic ''must never be called''
   \<and> NewAccount p uid mnemonic bip39Passphrase hdPath algo = Panic ''must never be called''
   \<and> SaveLedgerKey p uid algo hrp coinType account index = Panic ''must never be called''
   \<and> SavePubKey p uid pubkey keyType = Panic ''must never be called''
   \<and> SaveMultisig p uid pubkey = Panic ''must never be called''
   \<and> ImportPrivKey p uid armor passphrase = Panic ''must never be called''
   \<and> ImportPubKey p uid armor = Panic ''must never be called''
   \<and> ExportPubKeyArmor p uid = Panic ''must never be called''
   \<and> ExportPubKeyArmorByAddress p address = Panic ''must never be called''
   \<and> ExportPrivKeyArmor p uid encryptPassphrase = Panic ''must never be called''
   \<and> ExportPrivKeyArmorByAddress p address encryptPassphrase = Panic ''must never be called''
   \<and> GetPath i = Panic ''must never be called''
   \<and> GetAlgo i = Panic ''must never be called''"
  by (simp add: List_def SupportedAlgorithms_def Delete_def DeleteByAddress_def
      NewMnemonic_def NewAccount_def SaveLedgerKey_def SavePubKey_def SaveMultisig_def
      ImportPrivKey_def ImportPubKey_def ExportPubKeyArmor_def
      ExportPubKeyArmorByAddress_def ExportPrivKeyArmor_def
      ExportPrivKeyArmorByAddress_def GetPath_def GetAlgo_def)

theorem unsupported_operations_panic_witness:
  "Delete \<lparr>addr = [1, 2], pubKey = [3], privKey = [4]\<rparr> ''feeder''
     = Panic ''must never be called''
   \<and> ExportPrivKeyArmorByAddress \<lparr>addr = [1, 2], pubKey = [3], privKey = [4]\<rparr>
       (sdk_Address [1, 2]) ''pw''
     = Panic ''must never be called''"
  using unsupported_operations_panic
      [of "\<lparr>addr = [1, 2], pubKey = [3], privKey = [4]\<rparr>" "''feeder''" "sdk_Address [1, 2]"
          _ _ _ _ _ _ _ _ _ _ _ _ _ "''pw''"]
  by simp

section \<open>Properties of the feeder\<close>

lemma votes_map: "votes getPrice pairs = map (\<lambda>pair. abstain (getPrice pair)) pairs"
  by (induction pairs) simp_all

lemma Pair_abstain: "Pair' (abstain price) = Pair' price"
  by (simp add: abstain_def)

lemma Pair_GetPrice_result: "Pair' (GetPrice_result T now p pair) = pair"
  by (simp add: GetPrice_result_def GetPrice_def split: option.splits prod.splits)

lemma Pair_votes_GetPrice: "map Pair' (votes (GetPrice_result T now p) pairs) = pairs"
  by (induction pairs) (simp_all add: Pair_abstain Pair_GetPrice_result)


text \<open>
  Claim C3. On a voting-period-start event the Feeder calls \<open>SendPrices\<close> once, with
  the height of the event and the vote list of the Params it holds at that moment (those
  of the latest update): the list has one entry per configured pair, in the order of
  \<open>Params.pairs\<close>, each made from what \<open>GetPrice\<close> returns for that pair; with a
  \<open>PriceProvider\<close> as the provider, the pairs of the entries are the configured pairs
  in order.
\<close>

theorem handleVotingPeriod_votes:
  "handleVotingPeriod getPrice f vp =
     SendPrices (Height vp) (map (\<lambda>pair. abstain (getPrice pair)) (Pairs (params f)))
   \<and> length (votes getPrice (Pairs (params f))) = length (Pairs (params f))
   \<and> map Pair' (votes (GetPrice_result PriceTimeout now p) (Pairs (params f)))
       = Pairs (params f)
   \<and> react getPrice (f, sent) (VotingPeriodStarted vp) =
       (f, sent @ [SendPrices (Height vp) (votes getPrice (Pairs (params f)))])
   \<and> feeder_loop getPrice (f, sent) [ParamsUpdate ps, VotingPeriodStarted vp] =
       (f\<lparr>params := ps\<rparr>, sent @ [SendPrices (Height vp) (votes getPrice (Pairs ps))])"
proof -
  have a: "handleVotingPeriod getPrice f vp =
     SendPrices (Height vp) (map (\<lambda>pair. abstain (getPrice pair)) (Pairs (params f)))"
    by (simp add: handleVotingPeriod_def votes_map)
  have b: "length (votes getPrice (Pairs (params f))) = length (Pairs (params f))"
    by (simp add: votes_map)
  have c: "map Pair' (votes (GetPrice_result PriceTimeout now p) (Pairs (params f)))
       = Pairs (params f)"
    by (rule Pair_votes_GetPrice)
  have d: "react getPrice (f, sent) (VotingPeriodStarted vp) =
       (f, sent @ [SendPrices (Height vp) (votes getPrice (Pairs (params f)))])"
    by (simp add: handleVotingPeriod_def)
  have e: "feeder_loop getPrice (f, sent) [ParamsUpdate ps, VotingPeriodStarted vp] =
       (f\<lparr>params := ps\<rparr>, sent @ [SendPrices (Height vp) (votes getPrice (Pairs ps))])"
    by (simp add: handleVotingPeriod_def handleParamsUpdate_def)
  show ?thesis
    by (intro conjI a b c d e)
qed

theorem handleVotingPeriod_votes_witness:
  "handleVotingPeriod
     (GetPrice_result 15000000000 20000000000
        \<lparr>stopSignal = False, done_chan = False,
         source = NewTickSource [''tBTCUSD'', ''tETHUSD''] BitfinexPriceUpdate,
         sourceName = ''mock-source'',
         pairToSymbolMapping = [(AssetPair ''ubtc'' ''unusd'', ''tBTCUSD'')],
         lastPrices = Map.empty\<rparr>)
     \<lparr>params = \<lparr>Pairs = [AssetPair ''ubtc'' ''unusd'', AssetPair ''ueth'' ''unusd''],
                 VotePeriodBlocks = 0\<rparr>\<rparr>
     \<lparr>Height = 100\<rparr>
   = SendPrices 100
       [\<lparr>Pair' = AssetPair ''ubtc'' ''unusd'', Price = 0, SourceName = ''mock-source'',
         Valid = False\<rparr>,
        \<lparr>Pair' = AssetPair ''ueth'' ''unusd'', Price = 0, SourceName = ''mock-source'',
         Valid = False\<rparr>]"
  using handleVotingPeriod_votes
    [of "GetPrice_result 15000000000 20000000000
        \<lparr>stopSignal = False, done_chan = False,
         source = NewTickSource [''tBTCUSD'', ''tETHUSD''] BitfinexPriceUpdate,
         sourceName = ''mock-source'',
         pairToSymbolMapping = [(AssetPair ''ubtc'' ''unusd'', ''tBTCUSD'')],
         lastPrices = Map.empty\<rparr>"
        "\<lparr>params = \<lparr>Pairs = [AssetPair ''ubtc'' ''unusd'', AssetPair ''ueth'' ''unusd''],
                 VotePeriodBlocks = 0\<rparr>\<rparr>"
        "\<lparr>Height = 100\<rparr>"]
  by (simp add: GetPrice_result_def GetPrice_def abstain_def isValid_def RawPrice_zero_def)


text \<open>
  Claim C4. In the vote list handed to \<open>SendPrices\<close>, the entry of a pair for which
  \<open>GetPrice\<close> returns a valid price is that price unchanged, and the entry of a pair
  for which it returns an invalid price is that price with the price value set to
  \<open>0\<close>; so every entry that is not valid has the price \<open>0\<close>.
\<close>

theorem votes_abstain:
  assumes "i < length (Pairs (params f))"
  shows "handleVotingPeriod getPrice f vp =
           SendPrices (Height vp) (votes getPrice (Pairs (params f)))
     \<and> votes getPrice (Pairs (params f)) ! i =
         (if Valid (getPrice (Pairs (params f) ! i)) then getPrice (Pairs (params f) ! i)
          else (getPrice (Pairs (params f) ! i))\<lparr>Price := 0\<rparr>)
     \<and> Valid (votes getPrice (Pairs (params f)) ! i) = Valid (getPrice (Pairs (params f) ! i))
     \<and> (\<not> Valid (votes getPrice (Pairs (params f)) ! i) \<longrightarrow>
           Price (votes getPrice (Pairs (params f)) ! i) = 0)"
  using assms
  by (simp add: handleVotingPeriod_def votes_map abstain_def del: votes.simps)

theorem votes_abstain_witness:
  "(1::nat) < length (Pairs (params
       \<lparr>params = \<lparr>Pairs = [AssetPair ''ubtc'' ''unusd'', AssetPair ''ueth'' ''unusd''],
                   VotePeriodBlocks = 0\<rparr>\<rparr>))
   \<and> handleVotingPeriod
     (GetPrice_result 15000000000 20000000000
        \<lparr>stopSignal = False, done_chan = False,
         source = NewTickSource [''tBTCUSD'', ''tETHUSD''] BitfinexPriceUpdate,
         sourceName = ''mock-source'',
         pairToSymbolMapping =
           [(AssetPair ''ubtc'' ''unusd'', ''tBTCUSD''),
            (AssetPair ''ueth'' ''unusd'', ''tETHUSD'')],
         lastPrices =
           [''tBTCUSD'' \<mapsto> \<lparr>RawPrice_Price = 100000.8, UpdateTime = 19000000000\<rparr>,
            ''tETHUSD'' \<mapsto> \<lparr>RawPrice_Price = 7000.11, UpdateTime = 1000000000\<rparr>]\<rparr>)
     \<lparr>params = \<lparr>Pairs = [AssetPair ''ubtc'' ''unusd'', AssetPair ''ueth'' ''unusd''],
                 VotePeriodBlocks = 0\<rparr>\<rparr>
     \<lparr>Height = 100\<rparr>
   = SendPrices 100
       [\<lparr>Pair' = AssetPair ''ubtc'' ''unusd'', Price = 100000.8,
         SourceName = ''mock-source'', Valid = True\<rparr>,
        \<lparr>Pair' = AssetPair ''ueth'' ''unusd'', Price = 0, SourceName = ''mock-source'',
         Valid = False\<rparr>]"
proof -
  let ?f = "\<lparr>params = \<lparr>Pairs = [AssetPair ''ubtc'' ''unusd'', AssetPair ''ueth'' ''unusd''],
                 VotePeriodBlocks = 0\<rparr>\<rparr>"
  let ?p = "\<lparr>stopSignal = False, done_chan = False,
         source = NewTickSource [''tBTCUSD'', ''tETHUSD''] BitfinexPriceUpdate,
         sourceName = ''mock-source'',
         pairToSymbolMapping =
           [(AssetPair ''ubtc'' ''unusd'', ''tBTCUSD''),
            (AssetPair ''ueth'' ''unusd'', ''tETHUSD'')],
         lastPrices =
           [''tBTCUSD'' \<mapsto> \<lparr>RawPrice_Price = 100000.8, UpdateTime = 19000000000\<rparr>,
            ''tETHUSD'' \<mapsto> \<lparr>RawPrice_Price = 7000.11, UpdateTime = 1000000000\<rparr>]\<rparr>"
  have h: "(1::nat) < length (Pairs (params ?f))"
    by simp
  have t: "time_Since 20000000000 19000000000 = 1000000000"
    "time_Since 20000000000 1000000000 = 19000000000"
    by (simp_all add: time_Since_def Time_Sub_def maxDuration_def minDuration_def)
  from votes_abstain [OF h, of "GetPrice_result 15000000000 20000000000 ?p" "\<lparr>Height = 100\<rparr>"]
  show ?thesis
    by (simp add: GetPrice_result_def GetPrice_def abstain_def isValid_def t)
qed





end
